theory Spec2Isabelle
  imports Complex_Main "HOL-Library.Multiset"
begin

section \<open>Orbit geometry and libration points of the scene service\<close>

text \<open>
  This theory embeds \<^verbatim>\<open>src/app/scene/scene.service.ts\<close>. A JavaScript \<^verbatim>\<open>number\<close> is
  an IEEE-754 binary64 value. The geometry below reads every number as the real number
  it stands for: rounding, \<^verbatim>\<open>NaN\<close> and the infinities are not represented, and the
  theorems speak of executions in which no divisor is zero.
  Section \<open>Evaluation in binary64\<close> treats the two places where rounding decides the
  outcome, the number of samples of an orbit path and the equality of the two radii of
  an orbit ellipse, in exact binary64 arithmetic.
\<close>

subsection \<open>Data model\<close>

text \<open>
  The interfaces of \<^verbatim>\<open>scene.model\<close>, as the service uses them. The coordinate fields
  \<^verbatim>\<open>x\<close> and \<^verbatim>\<open>y\<close> carry a prefix per record (\<open>px\<close>, \<open>ox\<close>, \<open>lx\<close>), as do
  \<^verbatim>\<open>OrbitPoint.trueAnomaly\<close> (\<open>oTrueAnomaly\<close>), \<^verbatim>\<open>LagrangePoint.type\<close> (\<open>ltype\<close>) and
  \<^verbatim>\<open>CelestialBody.id\<close> (\<open>body_id\<close>).
\<close>

record Point =
  px :: real
  py :: real

record Ellipse =
  cx :: real
  cy :: real
  rx :: real
  ry :: real

record OrbitPoint =
  oTrueAnomaly :: real
  ox :: real
  oy :: real

datatype LagrangePointType = L1 | L2 | L3 | L4 | L5

record LagrangePoint =
  lx :: real
  ly :: real
  ltype :: LagrangePointType

text \<open>
  Bodies are shared mutable objects: \<^verbatim>\<open>orbitBody\<close> is a reference to another body, and
  the constructor writes \<^verbatim>\<open>trueAnomaly\<close>, \<^verbatim>\<open>position\<close> and \<^verbatim>\<open>lagrangePoints\<close> in place.
  A reference is an address into a store of bodies. A field that may be undefined
  (\<^verbatim>\<open>orbitBody\<close> of the primary, \<^verbatim>\<open>position\<close> before it is computed, \<^verbatim>\<open>lagrangePoints\<close>)
  is an option.
\<close>

type_synonym ref = nat

record CelestialBody =
  body_id :: string
  mass :: real
  semiMajorAxis :: real
  eccentricity :: real
  meanAnomaly :: real
  trueAnomaly :: real
  orbitBody :: "ref option"
  position :: "Point option"
  lagrangePoints ::
    "(LagrangePoint \<times> LagrangePoint \<times> LagrangePoint \<times> LagrangePoint \<times> LagrangePoint) option"

type_synonym store = "ref \<Rightarrow> CelestialBody option"

text \<open>Reading a property of \<^verbatim>\<open>undefined\<close> throws a \<^verbatim>\<open>TypeError\<close>.\<close>

datatype error = TypeError

subsection \<open>Constants\<close>

definition KM_TO_PX :: real where
  "KM_TO_PX = 100000"

text \<open>
  Modelled from the spec: \<^verbatim>\<open>DEG_TO_RAD\<close> is imported from \<^verbatim>\<open>scene.model\<close>, which is not
  among the sources; the specification calls it the fixed degrees-to-radians
  conversion factor.
\<close>

definition DEG_TO_RAD :: real where
  "DEG_TO_RAD = pi / 180"

subsection \<open>Orbit geometry engine\<close>

definition getDistanceToFocusPoint :: "CelestialBody \<Rightarrow> real \<Rightarrow> real" where
  "getDistanceToFocusPoint body ta =
     (semiMajorAxis body * (1 - (eccentricity body)\<^sup>2))
       / (1 + (eccentricity body * cos (ta * DEG_TO_RAD)))"

text \<open>
  \<open>orbitBodyPosition\<close> is the read \<^verbatim>\<open>body.orbitBody.position\<close>, which both
  \<^verbatim>\<open>getOrbitEllipse\<close> and \<^verbatim>\<open>getPositionForTrueAnomaly\<close> perform before they touch a
  coordinate.
\<close>

definition orbitBodyPosition :: "store \<Rightarrow> CelestialBody \<Rightarrow> error + Point" where
  "orbitBodyPosition s body =
     (case orbitBody body of
        None \<Rightarrow> Inl TypeError
      | Some r \<Rightarrow>
          (case s r of
             None \<Rightarrow> Inl TypeError
           | Some ob \<Rightarrow>
               (case position ob of
                  None \<Rightarrow> Inl TypeError
                | Some p \<Rightarrow> Inr p)))"

definition getPositionForTrueAnomaly :: "store \<Rightarrow> CelestialBody \<Rightarrow> real \<Rightarrow> error + Point" where
  "getPositionForTrueAnomaly s body ta =
     (let d = getDistanceToFocusPoint body ta;
          yKm = - d * sin (ta * DEG_TO_RAD);
          xKm = d * cos (ta * DEG_TO_RAD)
      in case orbitBodyPosition s body of
           Inl e \<Rightarrow> Inl e
         | Inr p \<Rightarrow> Inr \<lparr>px = (xKm / KM_TO_PX) + px p, py = (yKm / KM_TO_PX) + py p\<rparr>)"

definition getOrbitEllipse :: "store \<Rightarrow> CelestialBody \<Rightarrow> error + Ellipse" where
  "getOrbitEllipse s body =
     (case orbitBodyPosition s body of
        Inl e \<Rightarrow> Inl e
      | Inr p \<Rightarrow>
          Inr \<lparr>cx = px p - (eccentricity body * semiMajorAxis body / KM_TO_PX),
               cy = py p,
               rx = semiMajorAxis body / KM_TO_PX,
               ry = sqrt ((semiMajorAxis body)\<^sup>2 * (1 - (eccentricity body)\<^sup>2)) / KM_TO_PX\<rparr>)"

subsection \<open>Orbit paths\<close>

text \<open>
  \<^verbatim>\<open>d3.range(start, stop, step)\<close> belongs to the d3 library. It returns the arithmetic
  progression \<open>start + i * step\<close> for \<open>i\<close> from \<open>0\<close> below
  \<open>max 0 \<lceil>(stop - start) / step\<rceil>\<close>.
\<close>

definition d3_range :: "real \<Rightarrow> real \<Rightarrow> real \<Rightarrow> real list" where
  "d3_range start stop step =
     (let n = nat (max 0 \<lceil>(stop - start) / step\<rceil>)
      in map (\<lambda>i. start + real i * step) [0..<n])"

text \<open>
  \<open>orbitSamples\<close> is the \<^verbatim>\<open>map\<close> over the sampled anomalies; an exception in the callback
  ends it.
\<close>

fun orbitSamples :: "store \<Rightarrow> CelestialBody \<Rightarrow> real list \<Rightarrow> error + OrbitPoint list" where
  "orbitSamples s body [] = Inr []"
| "orbitSamples s body (ta # tas) =
     (case getPositionForTrueAnomaly s body ta of
        Inl e \<Rightarrow> Inl e
      | Inr point \<Rightarrow>
          (case orbitSamples s body tas of
             Inl e \<Rightarrow> Inl e
           | Inr ps \<Rightarrow> Inr (\<lparr>oTrueAnomaly = ta, ox = px point, oy = py point\<rparr> # ps)))"

text \<open>
  \<open>orbitPathFrom\<close> is the body of \<^verbatim>\<open>getOrbitPath\<close> after the anomalies have been
  sampled: map, push of the body's own sample, sort by \<^verbatim>\<open>trueAnomaly\<close>. The comparator
  \<^verbatim>\<open>p1.trueAnomaly - p2.trueAnomaly\<close> orders by that key, and \<^verbatim>\<open>Array.prototype.sort\<close> is
  stable, as \<open>sort_key\<close> is.
\<close>

definition orbitPathFrom :: "store \<Rightarrow> CelestialBody \<Rightarrow> real list \<Rightarrow> error + OrbitPoint list" where
  "orbitPathFrom s body tas =
     (case orbitSamples s body tas of
        Inl e \<Rightarrow> Inl e
      | Inr result \<Rightarrow>
          (case position body of
             None \<Rightarrow> Inl TypeError
           | Some bp \<Rightarrow>
               Inr (sort_key oTrueAnomaly
                      (result @ [\<lparr>oTrueAnomaly = trueAnomaly body, ox = px bp, oy = py bp\<rparr>]))))"

definition getOrbitPath :: "store \<Rightarrow> CelestialBody \<Rightarrow> real \<Rightarrow> error + OrbitPoint list" where
  "getOrbitPath s body nbPoints = orbitPathFrom s body (d3_range 0 360 (360 / nbPoints))"

subsection \<open>Evaluation in binary64\<close>

text \<open>
  The number of samples is \<^verbatim>\<open>Math.ceil\<close> of a quotient of rounded numbers, so rounding
  can change it by a whole sample; and whether the two radii of an orbit ellipse are
  equal depends on whether \<^verbatim>\<open>1 - e ** 2\<close> rounds to \<open>1\<close>. This section evaluates the
  sampling of \<^verbatim>\<open>getOrbitPath\<close> and the body of \<^verbatim>\<open>getOrbitEllipse\<close> as JavaScript does, in
  IEEE-754 binary64 with rounding to nearest, ties to even.

  \<open>binary64 q\<close> is the double nearest to \<open>q\<close>, for \<open>q\<close> in the normal range (neither
  overflow nor subnormal results are represented): \<open>significand\<close> scales \<open>\<bar>q\<bar>\<close> by
  powers of two into \<open>[2\<^sup>5\<^sup>2, 2\<^sup>5\<^sup>3)\<close>, its first argument bounding the number of
  steps, and \<open>tiesToEven\<close> rounds the scaled value to an integer.
\<close>

definition tiesToEven :: "real \<Rightarrow> int" where
  "tiesToEven q =
     (let f = \<lfloor>q\<rfloor>; d = q - of_int f
      in if d < 1 / 2 then f else if 1 / 2 < d then f + 1 else if even f then f else f + 1)"

fun significand :: "nat \<Rightarrow> real \<Rightarrow> int \<Rightarrow> real \<times> int" where
  "significand 0 m e = (m, e)"
| "significand (Suc fuel) m e =
     (if 2 ^ 53 \<le> m then significand fuel (m / 2) (e + 1)
      else if m < 2 ^ 52 then significand fuel (m * 2) (e - 1)
      else (m, e))"

definition binary64 :: "real \<Rightarrow> real" where
  "binary64 q =
     (if q = 0 then 0
      else (let (m, e) = significand 2200 \<bar>q\<bar> 0
            in sgn q * of_int (tiesToEven m) * (2 powi e)))"

text \<open>The arithmetic operators of JavaScript round the exact result.\<close>

definition js_add :: "real \<Rightarrow> real \<Rightarrow> real" where
  "js_add a b = binary64 (a + b)"

definition js_sub :: "real \<Rightarrow> real \<Rightarrow> real" where
  "js_sub a b = binary64 (a - b)"

definition js_mul :: "real \<Rightarrow> real \<Rightarrow> real" where
  "js_mul a b = binary64 (a * b)"

definition js_div :: "real \<Rightarrow> real \<Rightarrow> real" where
  "js_div a b = binary64 (a / b)"




text \<open>
  \<^verbatim>\<open>d3.range\<close> computes \<^verbatim>\<open>n = Math.max(0, Math.ceil((stop - start) / step)) | 0\<close> and fills
  \<^verbatim>\<open>range[i] = start + i * step\<close> for \<open>i < n\<close>; the conversion \<^verbatim>\<open>| 0\<close> changes no count
  below \<open>2\<^sup>3\<^sup>1\<close> and is left out. \<open>getOrbitPath64\<close> is \<^verbatim>\<open>getOrbitPath\<close> with this sampling;
  the positions of the samples are still computed over the reals.
\<close>

definition d3_range64 :: "real \<Rightarrow> real \<Rightarrow> real \<Rightarrow> real list" where
  "d3_range64 start stop step =
     (let n = nat (max 0 \<lceil>js_div (js_sub stop start) step\<rceil>)
      in map (\<lambda>i. js_add start (js_mul (real i) step)) [0..<n])"

definition getOrbitPath64 :: "store \<Rightarrow> CelestialBody \<Rightarrow> real \<Rightarrow> error + OrbitPoint list" where
  "getOrbitPath64 s body nbPoints =
     orbitPathFrom s body (d3_range64 0 360 (js_div 360 nbPoints))"

subsection \<open>Libration solver\<close>

text \<open>
  \<^verbatim>\<open>EARTH\<close> and \<^verbatim>\<open>SUN\<close> are module-level objects of the data files; here they are the
  references passed in. \<^verbatim>\<open>Math.cbrt\<close> is the real cube root \<open>root 3\<close>. The source
  assigns \<^verbatim>\<open>r\<close> twice; the second binding of \<open>r\<close> below shadows the first in the same
  way.
\<close>

definition getEarthLagrangePoints ::
  "store \<Rightarrow> ref \<Rightarrow> ref \<Rightarrow>
     error + (LagrangePoint \<times> LagrangePoint \<times> LagrangePoint \<times> LagrangePoint \<times> LagrangePoint)" where
  "getEarthLagrangePoints s EARTH SUN =
     (case s EARTH of
        None \<Rightarrow> Inl TypeError
      | Some earth \<Rightarrow>
     (case position earth of
        None \<Rightarrow> Inl TypeError
      | Some ep \<Rightarrow>
     (case s SUN of
        None \<Rightarrow> Inl TypeError
      | Some sun \<Rightarrow>
          (let distance = sqrt ((px ep)\<^sup>2 + (py ep)\<^sup>2);
               r = distance * root 3 (mass earth / (3 * mass sun));
               l1 = \<lparr>lx = (px ep * (distance - r)) / distance,
                     ly = (py ep * (distance - r)) / distance,
                     ltype = L1\<rparr>;
               l2 = \<lparr>lx = (px ep * (distance + r)) / distance,
                     ly = (py ep * (distance + r)) / distance,
                     ltype = L2\<rparr>;
               r = distance * ((7 * mass earth) / (12 * mass sun));
               l3 = \<lparr>lx = - (px ep * (distance - r)) / distance,
                     ly = - (py ep * (distance - r)) / distance,
                     ltype = L3\<rparr>;
               l4 = \<lparr>lx = (px ep * cos (60 * DEG_TO_RAD)) + (py ep * sin (60 * DEG_TO_RAD)),
                     ly = - (px ep * sin (60 * DEG_TO_RAD)) + (py ep * cos (60 * DEG_TO_RAD)),
                     ltype = L4\<rparr>;
               l5 = \<lparr>lx = (px ep * cos (- 60 * DEG_TO_RAD)) + (py ep * sin (- 60 * DEG_TO_RAD)),
                     ly = - (px ep * sin (- 60 * DEG_TO_RAD)) + (py ep * cos (- 60 * DEG_TO_RAD)),
                     ltype = L5\<rparr>
           in Inr (l1, l2, l3, l4, l5)))))"

text \<open>
  \<open>anomalyPoint d ta\<close> is the point at distance \<open>d\<close> from the origin in the direction of
  the true anomaly \<open>ta\<close> (in degrees), in the coordinates of
  \<open>getPositionForTrueAnomaly\<close>: the \<open>y\<close> axis points down.
\<close>

definition anomalyPoint :: "real \<Rightarrow> real \<Rightarrow> Point" where
  "anomalyPoint d ta = \<lparr>px = d * cos (ta * DEG_TO_RAD), py = - d * sin (ta * DEG_TO_RAD)\<rparr>"

subsection \<open>Catalog initialisation\<close>

text \<open>
  The constructor of \<^verbatim>\<open>SceneService\<close>. \<^verbatim>\<open>SOLAR_SYSTEM\<close> is the list of the catalog's
  references, filtered by \<^verbatim>\<open>body.id !== 'sun'\<close>; \<open>forEachBody\<close> is the \<^verbatim>\<open>forEach\<close>
  callback applied in order, each write going to the store. An undefined element
  passes the filter here and throws in \<open>forEachBody\<close>, so the constructor throws either
  way.
\<close>

definition notSun :: "store \<Rightarrow> ref \<Rightarrow> bool" where
  "notSun s r = (case s r of None \<Rightarrow> True | Some body \<Rightarrow> body_id body \<noteq> ''sun'')"

fun forEachBody :: "store \<Rightarrow> ref list \<Rightarrow> error + store" where
  "forEachBody s [] = Inr s"
| "forEachBody s (r # rs) =
     (case s r of
        None \<Rightarrow> Inl TypeError
      | Some body \<Rightarrow>
          (let body1 = body\<lparr>trueAnomaly := meanAnomaly body\<rparr>;
               s1 = s(r \<mapsto> body1)
           in case getPositionForTrueAnomaly s1 body1 (trueAnomaly body1) of
                Inl e \<Rightarrow> Inl e
              | Inr p \<Rightarrow> forEachBody (s1(r \<mapsto> body1\<lparr>position := Some p\<rparr>)) rs))"

definition SceneService_constructor :: "store \<Rightarrow> ref list \<Rightarrow> ref \<Rightarrow> ref \<Rightarrow> error + store" where
  "SceneService_constructor s SOLAR_SYSTEM EARTH SUN =
     (case forEachBody s (filter (notSun s) SOLAR_SYSTEM) of
        Inl e \<Rightarrow> Inl e
      | Inr s1 \<Rightarrow>
          (case getEarthLagrangePoints s1 EARTH SUN of
             Inl e \<Rightarrow> Inl e
           | Inr points \<Rightarrow>
               (case s1 EARTH of
                  None \<Rightarrow> Inl TypeError
                | Some earth \<Rightarrow> Inr (s1(EARTH \<mapsto> earth\<lparr>lagrangePoints := Some points\<rparr>)))))"

text \<open>
  Modelled from the spec: the catalog lives in the data files, which are not among the
  sources. The specification requires the orbit references to form a tree that is
  visited primary first. \<open>primaryFirst s rs\<close> says so of the visiting order \<open>rs\<close>: no
  body is listed twice, and no body orbits itself or a body that is visited after it.
\<close>

fun primaryFirst :: "store \<Rightarrow> ref list \<Rightarrow> bool" where
  "primaryFirst s [] = True"
| "primaryFirst s (r # rs) =
     (r \<notin> set rs
      \<and> (case s r of
           None \<Rightarrow> True
         | Some body \<Rightarrow>
             (case orbitBody body of
                None \<Rightarrow> True
              | Some ob \<Rightarrow> ob \<noteq> r \<and> ob \<notin> set rs))
      \<and> primaryFirst s rs)"

subsection \<open>An example catalog\<close>

text \<open>
  A primary, a planet on a circular orbit and a satellite on an eccentric one, before
  the constructor has run: only the primary has a position.
\<close>

definition sunBody :: CelestialBody where
  "sunBody = \<lparr>body_id = ''sun'', mass = 8, semiMajorAxis = 0, eccentricity = 0,
     meanAnomaly = 0, trueAnomaly = 0, orbitBody = None,
     position = Some \<lparr>px = 0, py = 0\<rparr>, lagrangePoints = None\<rparr>"

definition earthBody :: CelestialBody where
  "earthBody = \<lparr>body_id = ''earth'', mass = 3, semiMajorAxis = 200000, eccentricity = 0,
     meanAnomaly = 0, trueAnomaly = 0, orbitBody = Some 0,
     position = None, lagrangePoints = None\<rparr>"

definition moonBody :: CelestialBody where
  "moonBody = \<lparr>body_id = ''moon'', mass = 1, semiMajorAxis = 100000, eccentricity = 1 / 2,
     meanAnomaly = 90, trueAnomaly = 0, orbitBody = Some 1,
     position = None, lagrangePoints = None\<rparr>"

definition initialStore :: store where
  "initialStore = [0 \<mapsto> sunBody, 1 \<mapsto> earthBody, 2 \<mapsto> moonBody]"


text \<open>The planet once it has been given a position, and the store that holds it.\<close>

definition earthPlaced :: CelestialBody where
  "earthPlaced = earthBody\<lparr>position := Some \<lparr>px = 2, py = 0\<rparr>\<rparr>"

definition placedStore :: store where
  "placedStore = [0 \<mapsto> sunBody, 1 \<mapsto> earthPlaced, 2 \<mapsto> moonBody]"

section \<open>Properties of the orbit geometry engine\<close>

lemma deg_180: "180 * DEG_TO_RAD = pi"
  by (simp add: DEG_TO_RAD_def)

lemma focus_denominator_lower:
  fixes e t :: real
  assumes "0 \<le> e"
  shows "1 - e \<le> 1 + e * cos t"
proof -
  have "e * (- 1) \<le> e * cos t"
    using assms by (intro mult_left_mono) simp_all
  then show ?thesis by simp
qed

lemma focus_denominator_upper:
  fixes e t :: real
  assumes "0 \<le> e"
  shows "1 + e * cos t \<le> 1 + e"
proof -
  have "e * cos t \<le> e * 1"
    using assms by (intro mult_left_mono) simp_all
  then show ?thesis by simp
qed

text \<open>
  Claim C5. For a body with semi-major axis \<open>a > 0\<close> and eccentricity \<open>e\<close> in \<open>[0, 1)\<close>,
  \<open>getDistanceToFocusPoint\<close> at a true anomaly of \<open>\<theta>\<close> degrees is
  \<open>a (1 - e\<^sup>2) / (1 + e cos (\<theta> \<pi> / 180))\<close>; at \<open>0\<close> degrees it is the periapsis distance
  \<open>a (1 - e)\<close> and at \<open>180\<close> degrees the apoapsis distance \<open>a (1 + e)\<close>.
\<close>

theorem getDistanceToFocusPoint_conic:
  assumes "0 < semiMajorAxis body"
    and "0 \<le> eccentricity body" and "eccentricity body < 1"
  shows "getDistanceToFocusPoint body \<theta> =
           semiMajorAxis body * (1 - (eccentricity body)\<^sup>2)
             / (1 + eccentricity body * cos (\<theta> * pi / 180))
         \<and> getDistanceToFocusPoint body 0 = semiMajorAxis body * (1 - eccentricity body)
         \<and> getDistanceToFocusPoint body 180 = semiMajorAxis body * (1 + eccentricity body)"
proof -
  let ?a = "semiMajorAxis body" and ?e = "eccentricity body"
  have general: "getDistanceToFocusPoint body \<theta> = ?a * (1 - ?e\<^sup>2) / (1 + ?e * cos (\<theta> * pi / 180))"
    by (simp add: getDistanceToFocusPoint_def DEG_TO_RAD_def)
  have sq: "1 - ?e\<^sup>2 = (1 - ?e) * (1 + ?e)"
    by (simp add: power2_eq_square algebra_simps)
  have "getDistanceToFocusPoint body 0 = ?a * ((1 - ?e) * (1 + ?e)) / (1 + ?e)"
    by (simp add: getDistanceToFocusPoint_def sq)
  also have "\<dots> = ?a * (1 - ?e)"
    using assms by simp
  finally have periapsis: "getDistanceToFocusPoint body 0 = ?a * (1 - ?e)" .
  have "getDistanceToFocusPoint body 180 = ?a * ((1 - ?e) * (1 + ?e)) / (1 - ?e)"
    by (simp add: getDistanceToFocusPoint_def deg_180 sq)
  also have "\<dots> = ?a * (1 + ?e)"
    using assms by simp
  finally have apoapsis: "getDistanceToFocusPoint body 180 = ?a * (1 + ?e)" .
  from general periapsis apoapsis show ?thesis by blast
qed

theorem getDistanceToFocusPoint_conic_witness:
  "0 < semiMajorAxis moonBody \<and> 0 \<le> eccentricity moonBody \<and> eccentricity moonBody < 1
   \<and> getDistanceToFocusPoint moonBody 0 = 50000
   \<and> getDistanceToFocusPoint moonBody 180 = 150000"
  using getDistanceToFocusPoint_conic [of moonBody 0]
  by (simp add: moonBody_def)

text \<open>
  Claim C9. For eccentricity \<open>e\<close> in \<open>[0, 1)\<close> and every true anomaly, the divisor
  \<open>1 + e cos \<theta>\<close> of \<open>getDistanceToFocusPoint\<close> is at least \<open>1 - e > 0\<close>, so the
  division is never by zero; for a positive semi-major axis \<open>a\<close> the result is positive
  and bounded: it lies between \<open>a (1 - e)\<close> and \<open>a (1 + e)\<close>.
\<close>

theorem getDistanceToFocusPoint_total:
  assumes "0 \<le> eccentricity body" and "eccentricity body < 1"
  shows "0 < 1 - eccentricity body
         \<and> 1 - eccentricity body \<le> 1 + (eccentricity body * cos (\<theta> * DEG_TO_RAD))
         \<and> (0 < semiMajorAxis body \<longrightarrow>
              0 < getDistanceToFocusPoint body \<theta>
              \<and> semiMajorAxis body * (1 - eccentricity body) \<le> getDistanceToFocusPoint body \<theta>
              \<and> getDistanceToFocusPoint body \<theta> \<le> semiMajorAxis body * (1 + eccentricity body))"
proof -
  let ?a = "semiMajorAxis body" and ?e = "eccentricity body"
  let ?den = "1 + (?e * cos (\<theta> * DEG_TO_RAD))"
  have pos: "0 < 1 - ?e" using assms by simp
  have lower: "1 - ?e \<le> ?den" using assms(1) by (rule focus_denominator_lower)
  have upper: "?den \<le> 1 + ?e" using assms(1) by (rule focus_denominator_upper)
  have den_pos: "0 < ?den" using pos lower by linarith
  have dist: "getDistanceToFocusPoint body \<theta> = ?a * ((1 - ?e) * (1 + ?e)) / ?den"
    by (simp add: getDistanceToFocusPoint_def power2_eq_square algebra_simps)
  {
    assume a: "0 < ?a"
    have num_pos: "0 < ?a * ((1 - ?e) * (1 + ?e))"
      using a assms by simp
    have "?a * (1 - ?e) * ?den \<le> ?a * (1 - ?e) * (1 + ?e)"
      using a pos upper by (intro mult_left_mono) simp_all
    also have "\<dots> = ?a * ((1 - ?e) * (1 + ?e))"
      by (simp only: mult.assoc)
    finally have lo: "?a * (1 - ?e) \<le> getDistanceToFocusPoint body \<theta>"
      unfolding dist pos_le_divide_eq [OF den_pos] .
    have "?a * ((1 - ?e) * (1 + ?e)) = ?a * (1 + ?e) * (1 - ?e)"
      by (simp only: mult_ac)
    also have "\<dots> \<le> ?a * (1 + ?e) * ?den"
      using a assms(1) lower by (intro mult_left_mono) simp_all
    finally have hi: "getDistanceToFocusPoint body \<theta> \<le> ?a * (1 + ?e)"
      unfolding dist pos_divide_le_eq [OF den_pos] .
    have "0 < getDistanceToFocusPoint body \<theta>"
      unfolding dist using num_pos den_pos by (rule divide_pos_pos)
    note this lo hi
  }
  with pos lower show ?thesis by blast
qed

theorem getDistanceToFocusPoint_total_witness:
  "0 \<le> eccentricity moonBody \<and> eccentricity moonBody < 1 \<and> 0 < semiMajorAxis moonBody
   \<and> 0 < getDistanceToFocusPoint moonBody 90
   \<and> 50000 \<le> getDistanceToFocusPoint moonBody 90
   \<and> getDistanceToFocusPoint moonBody 90 \<le> 150000"
  using getDistanceToFocusPoint_total [of moonBody 90]
  by (simp add: moonBody_def)

text \<open>
  Claim C6. For a body whose orbited body has a position \<open>p\<close>, and every true anomaly
  \<open>\<theta>\<close> in degrees, \<open>getPositionForTrueAnomaly\<close> returns the point with
  \<open>x = (d cos \<theta>) / KM_TO_PX + p.x\<close> and \<open>y = (- d sin \<theta>) / KM_TO_PX + p.y\<close>, where \<open>d\<close> is
  \<open>getDistanceToFocusPoint body \<theta>\<close> and the angle is converted to radians: the \<open>y\<close>
  offset carries the opposite sign of the mathematical convention.
\<close>

theorem getPositionForTrueAnomaly_offset:
  assumes "orbitBody body = Some r" and "s r = Some ob" and "position ob = Some p"
  shows "getPositionForTrueAnomaly s body \<theta> =
           Inr \<lparr>px = (getDistanceToFocusPoint body \<theta> * cos (\<theta> * pi / 180)) / KM_TO_PX + px p,
                py = (- (getDistanceToFocusPoint body \<theta> * sin (\<theta> * pi / 180))) / KM_TO_PX + py p\<rparr>"
  using assms
  by (simp add: getPositionForTrueAnomaly_def orbitBodyPosition_def Let_def DEG_TO_RAD_def)

theorem getPositionForTrueAnomaly_offset_witness:
  "orbitBody earthBody = Some 0 \<and> initialStore 0 = Some sunBody \<and> position sunBody = Some \<lparr>px = 0, py = 0\<rparr>
   \<and> getPositionForTrueAnomaly initialStore earthBody 0 = Inr \<lparr>px = 2, py = 0\<rparr>"
  using getPositionForTrueAnomaly_offset [of earthBody 0 initialStore sunBody "\<lparr>px = 0, py = 0\<rparr>" 0]
  by (simp add: initialStore_def earthBody_def sunBody_def
      getDistanceToFocusPoint_def KM_TO_PX_def)

text \<open>
  Claim C7. For a body with semi-major axis \<open>a > 0\<close> and eccentricity \<open>e\<close> in \<open>[0, 1)\<close>
  whose orbited body is at \<open>p\<close>, \<open>getOrbitEllipse\<close> returns \<open>rx = a / KM_TO_PX\<close>,
  \<open>ry = a \<surd>(1 - e\<^sup>2) / KM_TO_PX\<close>, \<open>cy = p.y\<close> and \<open>cx = p.x - a e / KM_TO_PX\<close>; for \<open>e = 0\<close>
  these are \<open>rx = ry = a / KM_TO_PX\<close> and the centre is \<open>p\<close> itself.
\<close>

theorem getOrbitEllipse_focus:
  assumes "0 < semiMajorAxis body"
    and "0 \<le> eccentricity body" and "eccentricity body < 1"
    and "orbitBody body = Some r" and "s r = Some ob" and "position ob = Some p"
  shows "getOrbitEllipse s body =
           Inr \<lparr>cx = px p - semiMajorAxis body * eccentricity body / KM_TO_PX,
                cy = py p,
                rx = semiMajorAxis body / KM_TO_PX,
                ry = semiMajorAxis body * sqrt (1 - (eccentricity body)\<^sup>2) / KM_TO_PX\<rparr>
         \<and> (eccentricity body = 0 \<longrightarrow>
              getOrbitEllipse s body =
                Inr \<lparr>cx = px p, cy = py p,
                     rx = semiMajorAxis body / KM_TO_PX, ry = semiMajorAxis body / KM_TO_PX\<rparr>)"
proof -
  let ?a = "semiMajorAxis body" and ?e = "eccentricity body"
  have minor: "sqrt (?a\<^sup>2 * (1 - ?e\<^sup>2)) = ?a * sqrt (1 - ?e\<^sup>2)"
    using assms(1) by (simp add: real_sqrt_mult)
  have pos: "orbitBodyPosition s body = Inr p"
    using assms(4-6) by (simp add: orbitBodyPosition_def)
  have general: "getOrbitEllipse s body =
      Inr \<lparr>cx = px p - ?a * ?e / KM_TO_PX, cy = py p, rx = ?a / KM_TO_PX,
           ry = ?a * sqrt (1 - ?e\<^sup>2) / KM_TO_PX\<rparr>"
    by (simp add: getOrbitEllipse_def pos minor mult.commute)
  then show ?thesis by simp
qed

theorem getOrbitEllipse_focus_witness:
  "0 < semiMajorAxis earthBody \<and> 0 \<le> eccentricity earthBody \<and> eccentricity earthBody < 1
   \<and> orbitBody earthBody = Some 0 \<and> initialStore 0 = Some sunBody
   \<and> position sunBody = Some \<lparr>px = 0, py = 0\<rparr> \<and> eccentricity earthBody = 0
   \<and> getOrbitEllipse initialStore earthBody = Inr \<lparr>cx = 0, cy = 0, rx = 2, ry = 2\<rparr>"
  using getOrbitEllipse_focus [of earthBody 0 initialStore sunBody "\<lparr>px = 0, py = 0\<rparr>"]
  by (simp add: initialStore_def earthBody_def sunBody_def KM_TO_PX_def)

text \<open>
  The rounding \<open>binary64\<close> is evaluated on numerals by unfolding \<open>significand\<close> step by
  step; \<open>binary64_tenth\<close> is the familiar double nearest to one tenth.
\<close>

lemma significand_numeral:
  "significand (numeral k) m e =
     (if 2 ^ 53 \<le> m then significand (pred_numeral k) (m / 2) (e + 1)
      else if m < 2 ^ 52 then significand (pred_numeral k) (m * 2) (e - 1)
      else (m, e))"
  by (simp add: numeral_eq_Suc)

lemmas binary64_eval =
  binary64_def significand_numeral tiesToEven_def Let_def power_int_def power_divide

lemma binary64_tenth: "binary64 (1 / 10) = 3602879701896397 / 36028797018963968"
  by (simp add: binary64_eval)

text \<open>
  Over the reals the two radii are equal only on a circular orbit.
\<close>

lemma getOrbitEllipse_radii_exact_arithmetic:
  assumes "0 < semiMajorAxis body"
    and "0 \<le> eccentricity body" and "eccentricity body < 1"
    and "getOrbitEllipse s body = Inr el"
  shows "ry el = rx el \<longleftrightarrow> eccentricity body = 0"
proof -
  let ?a = "semiMajorAxis body" and ?e = "eccentricity body"
  have K: "0 < KM_TO_PX" by (simp add: KM_TO_PX_def)
  have minor: "sqrt (?a\<^sup>2 * (1 - ?e\<^sup>2)) = ?a * sqrt (1 - ?e\<^sup>2)"
    using assms(1) by (simp add: real_sqrt_mult)
  from assms(4) have r: "ry el = ?a * sqrt (1 - ?e\<^sup>2) / KM_TO_PX" "rx el = ?a / KM_TO_PX"
    by (auto simp: getOrbitEllipse_def minor split: sum.splits)
  have root_one: "sqrt (1 - ?e\<^sup>2) = 1 \<longleftrightarrow> ?e = 0" by simp
  show ?thesis
    unfolding r using assms(1) K root_one by simp
qed













section \<open>Properties of the libration solver\<close>

lemma rotation_square:
  fixes u v c k :: real
  shows "(u * c + v * k)\<^sup>2 + (- (u * k) + v * c)\<^sup>2 = (u\<^sup>2 + v\<^sup>2) * (k\<^sup>2 + c\<^sup>2)"
  by (simp add: power2_eq_square algebra_simps)

lemma rotation_norm:
  fixes u v t :: real
  shows "(u * cos t + v * sin t)\<^sup>2 + (- (u * sin t) + v * cos t)\<^sup>2 = u\<^sup>2 + v\<^sup>2"
  by (simp only: rotation_square sin_cos_squared_add mult_1_right)

lemma scaled_norm:
  fixes u v k :: real
  shows "sqrt ((u * k)\<^sup>2 + (v * k)\<^sup>2) = \<bar>k\<bar> * sqrt (u\<^sup>2 + v\<^sup>2)"
proof -
  have "(u * k)\<^sup>2 + (v * k)\<^sup>2 = k\<^sup>2 * (u\<^sup>2 + v\<^sup>2)"
    by (simp add: power2_eq_square algebra_simps)
  then show ?thesis by (simp add: real_sqrt_mult)
qed

lemma getEarthLagrangePoints_value:
  assumes "s EARTH = Some earth" and "s SUN = Some sun" and "position earth = Some p"
  shows "getEarthLagrangePoints s EARTH SUN =
    Inr (\<lparr>lx = (px p * (sqrt ((px p)\<^sup>2 + (py p)\<^sup>2) - sqrt ((px p)\<^sup>2 + (py p)\<^sup>2) * root 3 (mass earth / (3 * mass sun)))) / sqrt ((px p)\<^sup>2 + (py p)\<^sup>2),
           ly = (py p * (sqrt ((px p)\<^sup>2 + (py p)\<^sup>2) - sqrt ((px p)\<^sup>2 + (py p)\<^sup>2) * root 3 (mass earth / (3 * mass sun)))) / sqrt ((px p)\<^sup>2 + (py p)\<^sup>2),
           ltype = L1\<rparr>,
         \<lparr>lx = (px p * (sqrt ((px p)\<^sup>2 + (py p)\<^sup>2) + sqrt ((px p)\<^sup>2 + (py p)\<^sup>2) * root 3 (mass earth / (3 * mass sun)))) / sqrt ((px p)\<^sup>2 + (py p)\<^sup>2),
           ly = (py p * (sqrt ((px p)\<^sup>2 + (py p)\<^sup>2) + sqrt ((px p)\<^sup>2 + (py p)\<^sup>2) * root 3 (mass earth / (3 * mass sun)))) / sqrt ((px p)\<^sup>2 + (py p)\<^sup>2),
           ltype = L2\<rparr>,
         \<lparr>lx = - (px p * (sqrt ((px p)\<^sup>2 + (py p)\<^sup>2) - sqrt ((px p)\<^sup>2 + (py p)\<^sup>2) * ((7 * mass earth) / (12 * mass sun)))) / sqrt ((px p)\<^sup>2 + (py p)\<^sup>2),
           ly = - (py p * (sqrt ((px p)\<^sup>2 + (py p)\<^sup>2) - sqrt ((px p)\<^sup>2 + (py p)\<^sup>2) * ((7 * mass earth) / (12 * mass sun)))) / sqrt ((px p)\<^sup>2 + (py p)\<^sup>2),
           ltype = L3\<rparr>,
         \<lparr>lx = (px p * cos (60 * DEG_TO_RAD)) + (py p * sin (60 * DEG_TO_RAD)),
           ly = - (px p * sin (60 * DEG_TO_RAD)) + (py p * cos (60 * DEG_TO_RAD)),
           ltype = L4\<rparr>,
         \<lparr>lx = (px p * cos (60 * DEG_TO_RAD)) - (py p * sin (60 * DEG_TO_RAD)),
           ly = (px p * sin (60 * DEG_TO_RAD)) + (py p * cos (60 * DEG_TO_RAD)),
           ltype = L5\<rparr>)"
  using assms by (simp add: getEarthLagrangePoints_def Let_def)

lemma deg_60: "60 * DEG_TO_RAD = pi / 3"
  by (simp add: DEG_TO_RAD_def)

lemma anomalyPoint_advance:
  "px (anomalyPoint d (\<theta> + \<phi>)) =
     px (anomalyPoint d \<theta>) * cos (\<phi> * DEG_TO_RAD) + py (anomalyPoint d \<theta>) * sin (\<phi> * DEG_TO_RAD)"
  "py (anomalyPoint d (\<theta> + \<phi>)) =
     - (px (anomalyPoint d \<theta>) * sin (\<phi> * DEG_TO_RAD)) + py (anomalyPoint d \<theta>) * cos (\<phi> * DEG_TO_RAD)"
  by (simp_all add: anomalyPoint_def distrib_right cos_add sin_add algebra_simps)

lemma anomalyPoint_total: "\<exists>d \<theta>. p = anomalyPoint d \<theta>"
proof -
  obtain d a where xy: "px p = d * cos a" "- py p = d * sin a"
    using polar_Ex [of "px p" "- py p"] by blast
  have "p = anomalyPoint d (a / DEG_TO_RAD)"
    using xy by (simp add: anomalyPoint_def DEG_TO_RAD_def)
  then show ?thesis by blast
qed

lemma anomalyPoint_position:
  assumes "orbitBody body = Some r" and "s r = Some ob" and "position ob = Some \<lparr>px = 0, py = 0\<rparr>"
  shows "getPositionForTrueAnomaly s body \<theta> =
           Inr (anomalyPoint (getDistanceToFocusPoint body \<theta> / KM_TO_PX) \<theta>)"
  using assms
  by (simp add: getPositionForTrueAnomaly_def orbitBodyPosition_def anomalyPoint_def Let_def)

text \<open>
  Claim C3. The point \<open>L4\<close> is the secondary's position rotated by \<open>+60\<close> degrees about the
  primary at the origin, and \<open>L5\<close> is that position rotated by \<open>-60\<close> degrees, each with
  its type tag. Angles are counted as true anomalies are, in the coordinates of
  \<open>getPositionForTrueAnomaly\<close>: if the secondary is at distance \<open>d\<close> and true anomaly
  \<open>\<theta>\<close>, then \<open>L4\<close> is at distance \<open>d\<close> and true anomaly \<open>\<theta> + 60\<close>, and \<open>L5\<close> at
  \<open>\<theta> - 60\<close>. Every position has such a \<open>d\<close> and \<open>\<theta>\<close> (\<open>anomalyPoint_total\<close>). In
  coordinates, \<open>L4 = (x / 2 + y \<surd>3 / 2, - x \<surd>3 / 2 + y / 2)\<close> and
  \<open>L5 = (x / 2 - y \<surd>3 / 2, x \<surd>3 / 2 + y / 2)\<close>.
\<close>

theorem getEarthLagrangePoints_triangular:
  assumes "s EARTH = Some earth" and "s SUN = Some sun"
    and "position earth = Some p" and "p = anomalyPoint d \<theta>"
  shows "\<exists>l1 l2 l3 l4 l5.
           getEarthLagrangePoints s EARTH SUN = Inr (l1, l2, l3, l4, l5)
           \<and> l4 = \<lparr>lx = px (anomalyPoint d (\<theta> + 60)), ly = py (anomalyPoint d (\<theta> + 60)), ltype = L4\<rparr>
           \<and> l5 = \<lparr>lx = px (anomalyPoint d (\<theta> - 60)), ly = py (anomalyPoint d (\<theta> - 60)), ltype = L5\<rparr>
           \<and> l4 = \<lparr>lx = px p / 2 + py p * sqrt 3 / 2, ly = - (px p * sqrt 3 / 2) + py p / 2, ltype = L4\<rparr>
           \<and> l5 = \<lparr>lx = px p / 2 - py p * sqrt 3 / 2, ly = px p * sqrt 3 / 2 + py p / 2, ltype = L5\<rparr>"
proof -
  have plus: "px (anomalyPoint d (\<theta> + 60)) = px p * cos (60 * DEG_TO_RAD) + py p * sin (60 * DEG_TO_RAD)"
      "py (anomalyPoint d (\<theta> + 60)) = - (px p * sin (60 * DEG_TO_RAD)) + py p * cos (60 * DEG_TO_RAD)"
    unfolding assms(4) by (rule anomalyPoint_advance)+
  have minus: "px (anomalyPoint d (\<theta> - 60)) = px p * cos (60 * DEG_TO_RAD) - py p * sin (60 * DEG_TO_RAD)"
      "py (anomalyPoint d (\<theta> - 60)) = px p * sin (60 * DEG_TO_RAD) + py p * cos (60 * DEG_TO_RAD)"
    unfolding assms(4) using anomalyPoint_advance [of d \<theta> "- 60"] by simp_all
  have half: "cos (60 * DEG_TO_RAD) = 1 / 2" "sin (60 * DEG_TO_RAD) = sqrt 3 / 2"
    by (simp_all only: deg_60 cos_60 sin_60)
  show ?thesis
    unfolding getEarthLagrangePoints_value [OF assms(1-3)] plus minus
    by (simp add: half)
qed

theorem getEarthLagrangePoints_triangular_witness:
  "placedStore 1 = Some earthPlaced \<and> placedStore 0 = Some sunBody
   \<and> position earthPlaced = Some (anomalyPoint 2 0)
   \<and> (\<exists>l1 l2 l3. getEarthLagrangePoints placedStore 1 0 =
         Inr (l1, l2, l3, \<lparr>lx = 1, ly = - sqrt 3, ltype = L4\<rparr>, \<lparr>lx = 1, ly = sqrt 3, ltype = L5\<rparr>))"
proof -
  have earth: "placedStore 1 = Some earthPlaced" and sun: "placedStore 0 = Some sunBody"
    by (simp_all add: placedStore_def)
  have at: "position earthPlaced = Some (anomalyPoint 2 0)"
    by (simp add: earthPlaced_def anomalyPoint_def)
  from getEarthLagrangePoints_triangular [OF earth sun at refl]
  obtain l1 l2 l3 l4 l5 where
    "getEarthLagrangePoints placedStore 1 0 = Inr (l1, l2, l3, l4, l5)"
    "l4 = \<lparr>lx = px (anomalyPoint 2 0) / 2 + py (anomalyPoint 2 0) * sqrt 3 / 2,
           ly = - (px (anomalyPoint 2 0) * sqrt 3 / 2) + py (anomalyPoint 2 0) / 2, ltype = L4\<rparr>"
    "l5 = \<lparr>lx = px (anomalyPoint 2 0) / 2 - py (anomalyPoint 2 0) * sqrt 3 / 2,
           ly = px (anomalyPoint 2 0) * sqrt 3 / 2 + py (anomalyPoint 2 0) / 2, ltype = L5\<rparr>"
    by blast
  then have "getEarthLagrangePoints placedStore 1 0 =
      Inr (l1, l2, l3, \<lparr>lx = 1, ly = - sqrt 3, ltype = L4\<rparr>, \<lparr>lx = 1, ly = sqrt 3, ltype = L5\<rparr>)"
    by (simp add: anomalyPoint_def)
  with earth sun at show ?thesis by blast
qed

text \<open>
  Claim C8. With the primary at the origin, the distance from the primary to \<open>L4\<close> and
  the distance from the primary to \<open>L5\<close> both equal the distance from the primary to
  the secondary.
\<close>

theorem getEarthLagrangePoints_equidistant:
  assumes "s EARTH = Some earth" and "position earth = Some p"
    and "getEarthLagrangePoints s EARTH SUN = Inr (l1, l2, l3, l4, l5)"
  shows "sqrt ((lx l4)\<^sup>2 + (ly l4)\<^sup>2) = sqrt ((px p)\<^sup>2 + (py p)\<^sup>2)
         \<and> sqrt ((lx l5)\<^sup>2 + (ly l5)\<^sup>2) = sqrt ((px p)\<^sup>2 + (py p)\<^sup>2)"
proof -
  from assms obtain sun where sun: "s SUN = Some sun"
    by (auto simp: getEarthLagrangePoints_def split: option.splits)
  from assms(3) have l4: "lx l4 = px p * cos (60 * DEG_TO_RAD) + py p * sin (60 * DEG_TO_RAD)"
      "ly l4 = - (px p * sin (60 * DEG_TO_RAD)) + py p * cos (60 * DEG_TO_RAD)"
    and l5: "lx l5 = px p * cos (- (60 * DEG_TO_RAD)) + py p * sin (- (60 * DEG_TO_RAD))"
      "ly l5 = - (px p * sin (- (60 * DEG_TO_RAD))) + py p * cos (- (60 * DEG_TO_RAD))"
    unfolding getEarthLagrangePoints_value [OF assms(1) sun assms(2)] by auto
  show ?thesis
    unfolding l4 l5 rotation_norm by simp
qed

theorem getEarthLagrangePoints_equidistant_witness:
  "placedStore 1 = Some earthPlaced \<and> position earthPlaced = Some \<lparr>px = 2, py = 0\<rparr>
   \<and> (\<exists>l1 l2 l3. getEarthLagrangePoints placedStore 1 0 =
         Inr (l1, l2, l3, \<lparr>lx = 1, ly = - sqrt 3, ltype = L4\<rparr>, \<lparr>lx = 1, ly = sqrt 3, ltype = L5\<rparr>))
   \<and> sqrt ((lx \<lparr>lx = 1, ly = - sqrt 3, ltype = L4\<rparr>)\<^sup>2 + (ly \<lparr>lx = 1, ly = - sqrt 3, ltype = L4\<rparr>)\<^sup>2) = 2
   \<and> sqrt ((lx \<lparr>lx = 1, ly = sqrt 3, ltype = L5\<rparr>)\<^sup>2 + (ly \<lparr>lx = 1, ly = sqrt 3, ltype = L5\<rparr>)\<^sup>2) = 2"
proof -
  have points: "\<exists>l1 l2 l3. getEarthLagrangePoints placedStore 1 0 =
         Inr (l1, l2, l3, \<lparr>lx = 1, ly = - sqrt 3, ltype = L4\<rparr>, \<lparr>lx = 1, ly = sqrt 3, ltype = L5\<rparr>)"
    by (simp add: getEarthLagrangePoints_def placedStore_def earthPlaced_def earthBody_def
        Let_def deg_60 cos_60 sin_60)
  then obtain l1 l2 l3 where "getEarthLagrangePoints placedStore 1 0 =
         Inr (l1, l2, l3, \<lparr>lx = 1, ly = - sqrt 3, ltype = L4\<rparr>, \<lparr>lx = 1, ly = sqrt 3, ltype = L5\<rparr>)"
    by blast
  from getEarthLagrangePoints_equidistant [of placedStore 1 earthPlaced "\<lparr>px = 2, py = 0\<rparr>", OF _ _ this]
  have "sqrt ((lx \<lparr>lx = 1, ly = - sqrt 3, ltype = L4\<rparr>)\<^sup>2 + (ly \<lparr>lx = 1, ly = - sqrt 3, ltype = L4\<rparr>)\<^sup>2) = 2
   \<and> sqrt ((lx \<lparr>lx = 1, ly = sqrt 3, ltype = L5\<rparr>)\<^sup>2 + (ly \<lparr>lx = 1, ly = sqrt 3, ltype = L5\<rparr>)\<^sup>2) = 2"
    by (simp add: placedStore_def earthPlaced_def earthBody_def)
  with points show ?thesis
    by (simp add: placedStore_def earthPlaced_def earthBody_def)
qed

lemma scaled_norm_pos:
  fixes u v k :: real
  assumes "0 \<le> k"
  shows "sqrt ((u * k)\<^sup>2 + (v * k)\<^sup>2) = k * sqrt (u\<^sup>2 + v\<^sup>2)"
  using assms by (simp add: scaled_norm)

text \<open>
  Claim C4. With the primary, of positive mass, at the origin and the secondary at
  \<open>p\<close>, at distance \<open>d > 0\<close>: \<open>L1\<close> is \<open>p\<close> scaled by \<open>(d - r) / d\<close> and \<open>L2\<close> is \<open>p\<close> scaled by \<open>(d + r) / d\<close>,
  where \<open>r = d cbrt (massSecondary / (3 massPrimary))\<close>; \<open>L3\<close> is \<open>- p\<close> scaled by
  \<open>(d - r') / d\<close>, where \<open>r' = d (7 massSecondary) / (12 massPrimary)\<close>; each carries its
  type tag. Hence \<open>L1\<close>, \<open>L2\<close> and \<open>L3\<close> lie at the distances \<open>d - r\<close>, \<open>d + r\<close> and \<open>d - r'\<close>
  from the primary, whenever these quantities are not negative.
\<close>

theorem getEarthLagrangePoints_collinear:
  assumes "s EARTH = Some earth" and "s SUN = Some sun" and "position earth = Some p"
    and "d = sqrt ((px p)\<^sup>2 + (py p)\<^sup>2)" and "0 < d" and "0 < mass sun"
    and "r = d * root 3 (mass earth / (3 * mass sun))"
    and "r' = d * (7 * mass earth) / (12 * mass sun)"
  shows "\<exists>l1 l2 l3 l4 l5.
           getEarthLagrangePoints s EARTH SUN = Inr (l1, l2, l3, l4, l5)
           \<and> l1 = \<lparr>lx = px p * ((d - r) / d), ly = py p * ((d - r) / d), ltype = L1\<rparr>
           \<and> l2 = \<lparr>lx = px p * ((d + r) / d), ly = py p * ((d + r) / d), ltype = L2\<rparr>
           \<and> l3 = \<lparr>lx = - px p * ((d - r') / d), ly = - py p * ((d - r') / d), ltype = L3\<rparr>
           \<and> (r \<le> d \<longrightarrow> sqrt ((lx l1)\<^sup>2 + (ly l1)\<^sup>2) = d - r)
           \<and> (0 \<le> d + r \<longrightarrow> sqrt ((lx l2)\<^sup>2 + (ly l2)\<^sup>2) = d + r)
           \<and> (r' \<le> d \<longrightarrow> sqrt ((lx l3)\<^sup>2 + (ly l3)\<^sup>2) = d - r')"
proof -
  have along: "sqrt ((px p * k)\<^sup>2 + (py p * k)\<^sup>2) = k * d" if "0 \<le> k" for k
    using that by (simp add: scaled_norm_pos assms(4))
  have opposite: "sqrt ((- px p * k)\<^sup>2 + (- py p * k)\<^sup>2) = k * d" if "0 \<le> k" for k
    using along [OF that] by simp
  have n1: "sqrt ((px p * ((d - r) / d))\<^sup>2 + (py p * ((d - r) / d))\<^sup>2) = d - r" if "r \<le> d"
    using along [of "(d - r) / d"] that assms(5) by simp
  have n2: "sqrt ((px p * ((d + r) / d))\<^sup>2 + (py p * ((d + r) / d))\<^sup>2) = d + r" if "0 \<le> d + r"
    using along [of "(d + r) / d"] that assms(5) by simp
  have n3: "sqrt ((- px p * ((d - r') / d))\<^sup>2 + (- py p * ((d - r') / d))\<^sup>2) = d - r'" if "r' \<le> d"
    using opposite [of "(d - r') / d"] that assms(5) by simp
  have "getEarthLagrangePoints s EARTH SUN =
      Inr (\<lparr>lx = px p * ((d - r) / d), ly = py p * ((d - r) / d), ltype = L1\<rparr>,
           \<lparr>lx = px p * ((d + r) / d), ly = py p * ((d + r) / d), ltype = L2\<rparr>,
           \<lparr>lx = - px p * ((d - r') / d), ly = - py p * ((d - r') / d), ltype = L3\<rparr>,
           \<lparr>lx = (px p * cos (60 * DEG_TO_RAD)) + (py p * sin (60 * DEG_TO_RAD)),
             ly = - (px p * sin (60 * DEG_TO_RAD)) + (py p * cos (60 * DEG_TO_RAD)),
             ltype = L4\<rparr>,
           \<lparr>lx = (px p * cos (60 * DEG_TO_RAD)) - (py p * sin (60 * DEG_TO_RAD)),
             ly = (px p * sin (60 * DEG_TO_RAD)) + (py p * cos (60 * DEG_TO_RAD)),
             ltype = L5\<rparr>)"
    unfolding getEarthLagrangePoints_value [OF assms(1-3)] assms(7,8) assms(4) [symmetric]
    by simp
  with n1 n2 n3 show ?thesis by simp
qed

lemma cube_root_eighth: "root 3 (1 / 8) = 1 / 2"
proof -
  have "root 3 ((1 / 2) ^ 3) = (1 / 2 :: real)"
    by (rule real_root_power_cancel) simp_all
  then show ?thesis by (simp add: power3_eq_cube)
qed

theorem getEarthLagrangePoints_collinear_witness:
  "placedStore 1 = Some earthPlaced \<and> placedStore 0 = Some sunBody
   \<and> position earthPlaced = Some \<lparr>px = 2, py = 0\<rparr>
   \<and> (2 :: real) = sqrt ((px \<lparr>px = 2, py = 0\<rparr>)\<^sup>2 + (py \<lparr>px = 2, py = 0\<rparr>)\<^sup>2)
   \<and> 0 < mass sunBody
   \<and> (1 :: real) = 2 * root 3 (mass earthPlaced / (3 * mass sunBody))
   \<and> (7 / 16 :: real) = 2 * (7 * mass earthPlaced) / (12 * mass sunBody)
   \<and> (\<exists>l4 l5. getEarthLagrangePoints placedStore 1 0 =
         Inr (\<lparr>lx = 1, ly = 0, ltype = L1\<rparr>, \<lparr>lx = 3, ly = 0, ltype = L2\<rparr>,
              \<lparr>lx = - (25 / 16), ly = 0, ltype = L3\<rparr>, l4, l5))
   \<and> sqrt ((1 :: real)\<^sup>2 + 0\<^sup>2) = 2 - 1
   \<and> sqrt ((3 :: real)\<^sup>2 + 0\<^sup>2) = 2 + 1
   \<and> sqrt ((- (25 / 16) :: real)\<^sup>2 + 0\<^sup>2) = 2 - 7 / 16"
proof -
  have earth: "placedStore 1 = Some earthPlaced" and sun: "placedStore 0 = Some sunBody"
    by (simp_all add: placedStore_def)
  have at: "position earthPlaced = Some \<lparr>px = 2, py = 0\<rparr>"
    by (simp add: earthPlaced_def)
  have d: "(2 :: real) = sqrt ((px \<lparr>px = 2, py = 0\<rparr>)\<^sup>2 + (py \<lparr>px = 2, py = 0\<rparr>)\<^sup>2)"
    by simp
  have r: "(1 :: real) = 2 * root 3 (mass earthPlaced / (3 * mass sunBody))"
    by (simp add: earthPlaced_def earthBody_def sunBody_def cube_root_eighth)
  have r': "(7 / 16 :: real) = 2 * (7 * mass earthPlaced) / (12 * mass sunBody)"
    by (simp add: earthPlaced_def earthBody_def sunBody_def)
  have m: "0 < mass sunBody"
    by (simp add: sunBody_def)
  from getEarthLagrangePoints_collinear [OF earth sun at d _ m r r']
  obtain l1 l2 l3 l4 l5 where
    "getEarthLagrangePoints placedStore 1 0 = Inr (l1, l2, l3, l4, l5)"
    "l1 = \<lparr>lx = 1, ly = 0, ltype = L1\<rparr>" "l2 = \<lparr>lx = 3, ly = 0, ltype = L2\<rparr>"
    "l3 = \<lparr>lx = - (25 / 16), ly = 0, ltype = L3\<rparr>"
    "sqrt ((lx l1)\<^sup>2 + (ly l1)\<^sup>2) = 2 - 1"
    "sqrt ((lx l2)\<^sup>2 + (ly l2)\<^sup>2) = 2 + 1"
    "sqrt ((lx l3)\<^sup>2 + (ly l3)\<^sup>2) = 2 - 7 / 16"
    by auto
  with earth sun at d m r r' show ?thesis by auto
qed

section \<open>Properties of the catalog initialisation\<close>

lemma orbitBodyPosition_cong:
  assumes "orbitBody body' = orbitBody body"
    and "\<And>ob. orbitBody body = Some ob \<Longrightarrow> map_option position (s' ob) = map_option position (s ob)"
  shows "orbitBodyPosition s' body' = orbitBodyPosition s body"
proof (cases "orbitBody body")
  case None
  with assms(1) show ?thesis by (simp add: orbitBodyPosition_def)
next
  case (Some ob)
  from assms(2) [OF Some] show ?thesis
    unfolding orbitBodyPosition_def assms(1) Some
    by (cases "s ob"; cases "s' ob") auto
qed

lemma getPositionForTrueAnomaly_cong:
  assumes "orbitBody body' = orbitBody body"
    and "semiMajorAxis body' = semiMajorAxis body"
    and "eccentricity body' = eccentricity body"
    and "\<And>ob. orbitBody body = Some ob \<Longrightarrow> map_option position (s' ob) = map_option position (s ob)"
  shows "getPositionForTrueAnomaly s' body' \<theta> = getPositionForTrueAnomaly s body \<theta>"
proof -
  have "orbitBodyPosition s' body' = orbitBodyPosition s body"
    using assms(1,4) by (rule orbitBodyPosition_cong)
  then show ?thesis
    by (simp add: getPositionForTrueAnomaly_def getDistanceToFocusPoint_def assms(2,3))
qed

lemma forEachBody_frame:
  assumes "forEachBody s rs = Inr s'" and "r \<notin> set rs"
  shows "s' r = s r"
  using assms
proof (induction rs arbitrary: s)
  case Nil
  then show ?case by simp
next
  case (Cons a rs)
  then show ?case
    by (auto simp: Let_def split: option.splits sum.splits)
qed

lemma forEachBody_static:
  assumes "forEachBody s rs = Inr s'"
  shows "map_option body_id (s' r) = map_option body_id (s r)
         \<and> map_option orbitBody (s' r) = map_option orbitBody (s r)"
  using assms
proof (induction rs arbitrary: s)
  case Nil
  then show ?case by simp
next
  case (Cons a rs)
  from Cons.prems obtain body p where
    body: "s a = Some body"
    and rest: "forEachBody (s(a \<mapsto> body\<lparr>trueAnomaly := meanAnomaly body, position := Some p\<rparr>)) rs = Inr s'"
    by (auto simp: Let_def split: option.splits sum.splits)
  from Cons.IH [OF rest] body show ?case
    by (cases "r = a") simp_all
qed

lemma primaryFirst_cong:
  assumes "\<And>r. r \<in> set rs \<Longrightarrow> map_option orbitBody (s' r) = map_option orbitBody (s r)"
  shows "primaryFirst s' rs = primaryFirst s rs"
  using assms
proof (induction rs)
  case Nil
  then show ?case by simp
next
  case (Cons a rs)
  have tail: "primaryFirst s' rs = primaryFirst s rs"
    using Cons by simp
  have "map_option orbitBody (s' a) = map_option orbitBody (s a)"
    using Cons.prems by simp
  then have "(case s' a of None \<Rightarrow> True | Some body \<Rightarrow>
                (case orbitBody body of None \<Rightarrow> True | Some ob \<Rightarrow> ob \<noteq> a \<and> ob \<notin> set rs))
           = (case s a of None \<Rightarrow> True | Some body \<Rightarrow>
                (case orbitBody body of None \<Rightarrow> True | Some ob \<Rightarrow> ob \<noteq> a \<and> ob \<notin> set rs))"
    by (cases "s a"; cases "s' a") auto
  with tail show ?case by simp
qed

lemma forEachBody_cached:
  assumes "forEachBody s rs = Inr s'" and "primaryFirst s rs" and "r \<in> set rs"
  shows "\<exists>body p. s' r = Some body \<and> position body = Some p
           \<and> getPositionForTrueAnomaly s' body (trueAnomaly body) = Inr p"
  using assms
proof (induction rs arbitrary: s)
  case Nil
  then show ?case by simp
next
  case (Cons a rs)
  from Cons.prems(1) obtain body p where
    body: "s a = Some body"
    and p: "getPositionForTrueAnomaly (s(a \<mapsto> body\<lparr>trueAnomaly := meanAnomaly body\<rparr>))
              (body\<lparr>trueAnomaly := meanAnomaly body\<rparr>) (meanAnomaly body) = Inr p"
    and rest: "forEachBody (s(a \<mapsto> body\<lparr>trueAnomaly := meanAnomaly body, position := Some p\<rparr>)) rs = Inr s'"
    by (auto simp: Let_def split: option.splits sum.splits)
  let ?body1 = "body\<lparr>trueAnomaly := meanAnomaly body\<rparr>"
  let ?body2 = "body\<lparr>trueAnomaly := meanAnomaly body, position := Some p\<rparr>"
  let ?s1 = "s(a \<mapsto> ?body1)"
  let ?s2 = "s(a \<mapsto> ?body2)"
  from Cons.prems(2) body have fresh: "a \<notin> set rs"
    and parent: "\<And>ob. orbitBody body = Some ob \<Longrightarrow> ob \<noteq> a \<and> ob \<notin> set rs"
    and tail: "primaryFirst s rs"
    by (auto split: option.splits)
  show ?case
  proof (cases "r = a")
    case True
    have here: "s' a = Some ?body2"
      using forEachBody_frame [OF rest fresh] by simp
    have "getPositionForTrueAnomaly s' ?body2 (trueAnomaly ?body2)
            = getPositionForTrueAnomaly ?s1 ?body1 (meanAnomaly body)"
    proof -
      have "map_option position (s' ob) = map_option position (?s1 ob)"
        if "orbitBody ?body1 = Some ob" for ob
      proof -
        from that parent have "ob \<noteq> a" "ob \<notin> set rs" by simp_all
        then show ?thesis using forEachBody_frame [OF rest, of ob] by simp
      qed
      then have "getPositionForTrueAnomaly s' ?body2 (meanAnomaly body)
            = getPositionForTrueAnomaly ?s1 ?body1 (meanAnomaly body)"
        by (intro getPositionForTrueAnomaly_cong) simp_all
      then show ?thesis by simp
    qed
    with p here True show ?thesis by simp
  next
    case False
    with Cons.prems(3) have member: "r \<in> set rs" by simp
    have "primaryFirst ?s2 rs = primaryFirst s rs"
      using fresh by (intro primaryFirst_cong) auto
    with tail have "primaryFirst ?s2 rs" by simp
    from Cons.IH [OF rest this member] show ?thesis .
  qed
qed

text \<open>
  Claim C2. Once the constructor has returned, every body of the catalog other than the
  primary (\<^verbatim>\<open>id !== 'sun'\<close>) has a cached position, and \<open>getPositionForTrueAnomaly\<close> at
  the body's own \<open>trueAnomaly\<close> returns that position. The catalog is visited primary
  first, as the specification requires of it.
\<close>

theorem constructor_position_cached:
  assumes "SceneService_constructor s SOLAR_SYSTEM EARTH SUN = Inr s'"
    and "primaryFirst s (filter (notSun s) SOLAR_SYSTEM)"
    and "r \<in> set SOLAR_SYSTEM" and "s' r = Some body" and "body_id body \<noteq> ''sun''"
  shows "\<exists>p. position body = Some p
           \<and> getPositionForTrueAnomaly s' body (trueAnomaly body) = Inr p"
proof -
  from assms(1) obtain s1 points earth where
    loop: "forEachBody s (filter (notSun s) SOLAR_SYSTEM) = Inr s1"
    and earth: "s1 EARTH = Some earth"
    and s': "s' = s1(EARTH \<mapsto> earth\<lparr>lagrangePoints := Some points\<rparr>)"
    by (auto simp: SceneService_constructor_def split: sum.splits option.splits)
  have same: "map_option position (s' x) = map_option position (s1 x)"
      "map_option body_id (s' x) = map_option body_id (s1 x)" for x
    using earth by (simp_all add: s')
  have "map_option body_id (s' r) = map_option body_id (s r)"
    using same(2) [of r] forEachBody_static [OF loop, of r] by simp
  with assms(4,5) have "notSun s r"
    by (cases "s r") (auto simp: notSun_def)
  with assms(3) have "r \<in> set (filter (notSun s) SOLAR_SYSTEM)" by simp
  from forEachBody_cached [OF loop assms(2) this] obtain body1 p where
    body1: "s1 r = Some body1" and cached: "position body1 = Some p"
    and again: "getPositionForTrueAnomaly s1 body1 (trueAnomaly body1) = Inr p"
    by blast
  from body1 assms(4) earth have fields: "position body = position body1"
      "trueAnomaly body = trueAnomaly body1" "orbitBody body = orbitBody body1"
      "semiMajorAxis body = semiMajorAxis body1" "eccentricity body = eccentricity body1"
    by (auto simp: s' split: if_splits)
  have "getPositionForTrueAnomaly s' body (trueAnomaly body1)
          = getPositionForTrueAnomaly s1 body1 (trueAnomaly body1)"
    using fields same(1) by (intro getPositionForTrueAnomaly_cong) simp_all
  with again cached fields show ?thesis by simp
qed

lemma deg_90: "90 * DEG_TO_RAD = pi / 2"
  by (simp add: DEG_TO_RAD_def)

theorem constructor_position_cached_witness:
  "\<exists>s' body. SceneService_constructor initialStore [0, 1, 2] 1 0 = Inr s'
     \<and> primaryFirst initialStore (filter (notSun initialStore) [0, 1, 2])
     \<and> 2 \<in> set [0, 1, 2 :: nat] \<and> s' 2 = Some body \<and> body_id body \<noteq> ''sun''
     \<and> position body = Some \<lparr>px = 2, py = - (3 / 4)\<rparr>
     \<and> getPositionForTrueAnomaly s' body (trueAnomaly body) = Inr \<lparr>px = 2, py = - (3 / 4)\<rparr>"
proof -
  have "\<exists>s'. SceneService_constructor initialStore [0, 1, 2] 1 0 = Inr s'
          \<and> s' 2 = Some (moonBody\<lparr>trueAnomaly := 90, position := Some \<lparr>px = 2, py = - (3 / 4)\<rparr>\<rparr>)"
    by (simp add: SceneService_constructor_def notSun_def initialStore_def sunBody_def
        earthBody_def moonBody_def getPositionForTrueAnomaly_def orbitBodyPosition_def
        getDistanceToFocusPoint_def getEarthLagrangePoints_def KM_TO_PX_def Let_def deg_90
        power_divide)
  then obtain s' where init: "SceneService_constructor initialStore [0, 1, 2] 1 0 = Inr s'"
    and moon: "s' 2 = Some (moonBody\<lparr>trueAnomaly := 90, position := Some \<lparr>px = 2, py = - (3 / 4)\<rparr>\<rparr>)"
    by blast
  have order: "primaryFirst initialStore (filter (notSun initialStore) [0, 1, 2])"
    by (simp add: notSun_def initialStore_def sunBody_def earthBody_def moonBody_def)
  have listed: "2 \<in> set [0, 1, 2 :: nat]" by simp
  have named: "body_id (moonBody\<lparr>trueAnomaly := 90, position := Some \<lparr>px = 2, py = - (3 / 4)\<rparr>\<rparr>) \<noteq> ''sun''"
    by (simp add: moonBody_def)
  from constructor_position_cached [OF init order listed moon named]
  have "getPositionForTrueAnomaly s'
          (moonBody\<lparr>trueAnomaly := 90, position := Some \<lparr>px = 2, py = - (3 / 4)\<rparr>\<rparr>)
          (trueAnomaly (moonBody\<lparr>trueAnomaly := 90, position := Some \<lparr>px = 2, py = - (3 / 4)\<rparr>\<rparr>))
        = Inr \<lparr>px = 2, py = - (3 / 4)\<rparr>"
    by simp
  with init order listed moon named show ?thesis
    by (intro exI [of _ s'] exI [of _ "moonBody\<lparr>trueAnomaly := 90, position := Some \<lparr>px = 2, py = - (3 / 4)\<rparr>\<rparr>"]) simp
qed

section \<open>Properties of orbit paths\<close>

text \<open>
  In exact arithmetic \<^verbatim>\<open>d3.range(0, 360, 360 / n)\<close> has \<open>n\<close> elements, and the path is
  what the specification describes.
\<close>

lemma orbitSamples_value:
  assumes "orbitBodyPosition s body = Inr p"
  shows "orbitSamples s body tas =
           Inr (map (\<lambda>ta. \<lparr>oTrueAnomaly = ta,
                          ox = (getDistanceToFocusPoint body ta * cos (ta * DEG_TO_RAD)) / KM_TO_PX + px p,
                          oy = (- getDistanceToFocusPoint body ta * sin (ta * DEG_TO_RAD)) / KM_TO_PX + py p\<rparr>) tas)"
  using assms
  by (induction tas) (simp_all add: getPositionForTrueAnomaly_def Let_def)

lemma orbitSamples_position:
  assumes "orbitBodyPosition s body = Inr p"
  shows "getPositionForTrueAnomaly s body ta =
           Inr \<lparr>px = (getDistanceToFocusPoint body ta * cos (ta * DEG_TO_RAD)) / KM_TO_PX + px p,
                py = (- getDistanceToFocusPoint body ta * sin (ta * DEG_TO_RAD)) / KM_TO_PX + py p\<rparr>"
  using assms by (simp add: getPositionForTrueAnomaly_def Let_def)

lemma d3_range_exact:
  assumes "0 < n"
  shows "d3_range 0 360 (360 / real n) = map (\<lambda>i. real i * (360 / real n)) [0..<n]"
proof -
  have "(360 - 0) / (360 / real n) = real n"
    using assms by simp
  then have "nat (max 0 \<lceil>(360 - 0) / (360 / real n)\<rceil>) = n"
    by simp
  then show ?thesis
    unfolding d3_range_def Let_def by simp
qed

lemma getOrbitPath_exact_arithmetic:
  assumes "0 < n"
    and "orbitBody body = Some r" and "s r = Some ob" and "position ob = Some p"
    and "position body = Some bp"
  shows "\<exists>path samples.
           getOrbitPath s body (real n) = Inr path
           \<and> length path = n + 1
           \<and> sorted (map oTrueAnomaly path)
           \<and> mset path = mset samples + {#\<lparr>oTrueAnomaly = trueAnomaly body, ox = px bp, oy = py bp\<rparr>#}
           \<and> length samples = n
           \<and> (\<forall>i<n. oTrueAnomaly (samples ! i) = real i * 360 / real n
                  \<and> 0 \<le> oTrueAnomaly (samples ! i) \<and> oTrueAnomaly (samples ! i) < 360
                  \<and> getPositionForTrueAnomaly s body (oTrueAnomaly (samples ! i))
                      = Inr \<lparr>px = ox (samples ! i), py = oy (samples ! i)\<rparr>)"
proof -
  let ?tas = "map (\<lambda>i. real i * (360 / real n)) [0..<n]"
  let ?own = "\<lparr>oTrueAnomaly = trueAnomaly body, ox = px bp, oy = py bp\<rparr>"
  let ?at = "\<lambda>ta. \<lparr>oTrueAnomaly = ta,
      ox = (getDistanceToFocusPoint body ta * cos (ta * DEG_TO_RAD)) / KM_TO_PX + px p,
      oy = (- getDistanceToFocusPoint body ta * sin (ta * DEG_TO_RAD)) / KM_TO_PX + py p\<rparr>"
  let ?samples = "map ?at ?tas"
  let ?path = "sort_key oTrueAnomaly (?samples @ [?own])"
  have pos: "orbitBodyPosition s body = Inr p"
    using assms(2-4) by (simp add: orbitBodyPosition_def)
  have path: "getOrbitPath s body (real n) = Inr ?path"
    unfolding getOrbitPath_def d3_range_exact [OF assms(1)] orbitPathFrom_def
      orbitSamples_value [OF pos]
    using assms(5) by simp
  have len: "length ?path = n + 1"
    by simp
  have srt: "sorted (map oTrueAnomaly ?path)"
    by (rule sorted_sort_key)
  have ms: "mset ?path = mset ?samples + {#?own#}"
    by simp
  have each: "oTrueAnomaly (?samples ! i) = real i * 360 / real n
      \<and> 0 \<le> oTrueAnomaly (?samples ! i) \<and> oTrueAnomaly (?samples ! i) < 360
      \<and> getPositionForTrueAnomaly s body (oTrueAnomaly (?samples ! i))
           = Inr \<lparr>px = ox (?samples ! i), py = oy (?samples ! i)\<rparr>" if "i < n" for i
  proof -
    have nth: "?samples ! i = ?at (real i * (360 / real n))"
      using that by simp
    have "real i * 360 < 360 * real n"
      using that by simp
    then have "real i * 360 / real n < 360"
      using assms(1) by (simp add: pos_divide_less_eq)
    then show ?thesis
      unfolding nth by (simp add: orbitSamples_position [OF pos])
  qed
  show ?thesis
  proof (intro exI conjI allI impI)
    show "getOrbitPath s body (real n) = Inr ?path" by (rule path)
    show "length ?path = n + 1" by (rule len)
    show "sorted (map oTrueAnomaly ?path)" by (rule srt)
    show "mset ?path = mset ?samples + {#?own#}" by (rule ms)
    show "length ?samples = n" by simp
  next
    fix i assume "i < n"
    from each [OF this] show "oTrueAnomaly (?samples ! i) = real i * 360 / real n"
      and "0 \<le> oTrueAnomaly (?samples ! i)" and "oTrueAnomaly (?samples ! i) < 360"
      and "getPositionForTrueAnomaly s body (oTrueAnomaly (?samples ! i))
           = Inr \<lparr>px = ox (?samples ! i), py = oy (?samples ! i)\<rparr>"
      by blast+
  qed
qed

text \<open>
  In binary64 the number of samples depends on how \<open>360 / n\<close> rounds. The lemmas below
  evaluate the sampling for \<open>n = 161\<close>, where one sample too many lands just below
  \<open>360\<close>, and for \<open>n = 227\<close>, where the additional sample is \<open>360\<close> itself.
\<close>

lemma step_161: "js_div 360 161 = 314692520546075 / 140737488355328"
  by (simp add: js_div_def binary64_eval)

lemma span_360: "js_sub 360 0 = 360"
  by (simp add: js_sub_def binary64_eval)

lemma quotient_161: "js_div 360 (314692520546075 / 140737488355328) = 5664683906301953 / 35184372088832"
  by (simp add: js_div_def binary64_eval)

lemma count_161: "nat (max 0 \<lceil>js_div (js_sub 360 0) (js_div 360 161)\<rceil>) = 162"
  unfolding step_161 span_360 quotient_161 by simp

lemma d3_range64_161: "length (d3_range64 0 360 (js_div 360 161)) = 162"
  unfolding d3_range64_def Let_def count_161 by simp

lemma last_161: "d3_range64 0 360 (js_div 360 161) ! 161 = 6333186975989759 / 17592186044416"
proof -
  have "d3_range64 0 360 (js_div 360 161) ! 161 = js_add 0 (js_mul (real 161) (js_div 360 161))"
    unfolding d3_range64_def Let_def count_161 by simp
  also have "\<dots> = 6333186975989759 / 17592186044416"
    unfolding step_161 by (simp add: js_add_def js_mul_def binary64_eval)
  finally show ?thesis .
qed

lemma step_227: "js_div 360 227 = 446392033549939 / 281474976710656"
  by (simp add: js_div_def binary64_eval)

lemma quotient_227: "js_div 360 (446392033549939 / 281474976710656) = 7986852464164865 / 35184372088832"
  by (simp add: js_div_def binary64_eval)

lemma count_227: "nat (max 0 \<lceil>js_div (js_sub 360 0) (js_div 360 227)\<rceil>) = 228"
  unfolding step_227 span_360 quotient_227 by simp

lemma last_227:
  "length (d3_range64 0 360 (js_div 360 227)) = 228
   \<and> d3_range64 0 360 (js_div 360 227) ! 227 = 360"
proof -
  have "d3_range64 0 360 (js_div 360 227) ! 227 = js_add 0 (js_mul (real 227) (js_div 360 227))"
    unfolding d3_range64_def Let_def count_227 by simp
  also have "\<dots> = 360"
    unfolding step_227 by (simp add: js_add_def js_mul_def binary64_eval)
  finally show ?thesis
    unfolding d3_range64_def Let_def count_227 by simp
qed

text \<open>
  Claim C1. For a body with valid orbital elements and a positive integer \<open>n\<close>,
  \<^verbatim>\<open>getOrbitPath(body, n)\<close> returns exactly \<open>n + 1\<close> points, sorted by \<open>trueAnomaly\<close>: \<open>n\<close>
  samples at evenly spaced true anomalies in \<open>[0, 360)\<close> and the body's own sample.
  Over the reals this holds (\<open>getOrbitPath_exact_arithmetic\<close>). In binary64 it does not:
  for \<open>n = 161\<close> the step \<open>360 / 161\<close> rounds down, \<open>360\<close> divided by the rounded step
  rounds to a number above \<open>161\<close>, \<^verbatim>\<open>d3.range\<close> returns \<open>162\<close> samples, and the path of the
  example planet has \<open>163\<close> points instead of \<open>162\<close>.
\<close>

theorem getOrbitPath64_extra_sample:
  "\<exists>path. getOrbitPath64 placedStore earthPlaced 161 = Inr path
     \<and> length path = 163 \<and> length path \<noteq> 161 + 1"
proof -
  have pos: "orbitBodyPosition placedStore earthPlaced = Inr \<lparr>px = 0, py = 0\<rparr>"
    by (simp add: orbitBodyPosition_def placedStore_def earthPlaced_def earthBody_def sunBody_def)
  have own: "position earthPlaced = Some \<lparr>px = 2, py = 0\<rparr>"
    by (simp add: earthPlaced_def)
  show ?thesis
    unfolding getOrbitPath64_def orbitPathFrom_def orbitSamples_value [OF pos]
    by (simp add: own d3_range64_161)
qed

end
